theory Spec2Isabelle
  imports Complex_Main
begin

section \<open>JavaScript numbers\<close>

text \<open>
  Every quantity of the simulator is a JavaScript number.  The model keeps the special
  values of IEEE 754 that the source can produce and that survive its clamps: \<open>NaN\<close>,
  the two infinities and the negative zero.  \<open>Fin 0\<close> is the positive zero.  Finite
  arithmetic is exact: the rounding, overflow and underflow of binary64 are not modelled,
  and a decimal literal such as \<open>0.1\<close> stands for the rational it denotes.  The model
  therefore agrees with the source wherever the source's operations are exact (sums and
  products of zeros, of small integers and of dyadic fractions, divisions by zero, every
  operation on \<open>NaN\<close> and the infinities, every comparison).  It does not show what
  rounding and overflow add: the drift of \<open>t += dt\<close> for a step that is not dyadic, a
  total mass conserved up to rounding only, or a product that overflows to \<open>Infinity\<close>.
\<close>

datatype jsnum = NaN | PInf | NInf | NZero | Fin real

fun val :: "jsnum \<Rightarrow> real" where
  "val (Fin a) = a"
| "val _ = 0"

fun isFin :: "jsnum \<Rightarrow> bool" where
  "isFin (Fin a) = True"
| "isFin NZero = True"
| "isFin _ = False"

fun is_zero :: "jsnum \<Rightarrow> bool" where
  "is_zero (Fin a) = (a = 0)"
| "is_zero NZero = True"
| "is_zero _ = False"

fun is_inf :: "jsnum \<Rightarrow> bool" where
  "is_inf PInf = True"
| "is_inf NInf = True"
| "is_inf _ = False"

text \<open>The sign bit (of no meaning for \<open>NaN\<close>).\<close>

fun negative :: "jsnum \<Rightarrow> bool" where
  "negative NInf = True"
| "negative NZero = True"
| "negative (Fin a) = (a < 0)"
| "negative _ = False"

text \<open>Unary minus.\<close>

fun fneg :: "jsnum \<Rightarrow> jsnum" where
  "fneg NaN = NaN"
| "fneg PInf = NInf"
| "fneg NInf = PInf"
| "fneg NZero = Fin 0"
| "fneg (Fin a) = (if a = 0 then NZero else Fin (- a))"

text \<open>
  Addition: \<open>Infinity + -Infinity\<close> is \<open>NaN\<close>; a sum of zeros is \<open>-0\<close> only when both
  are; a finite sum that cancels is \<open>+0\<close>.
\<close>

fun fadd :: "jsnum \<Rightarrow> jsnum \<Rightarrow> jsnum" where
  "fadd NaN y = NaN"
| "fadd x NaN = NaN"
| "fadd PInf NInf = NaN"
| "fadd NInf PInf = NaN"
| "fadd PInf y = PInf"
| "fadd x PInf = PInf"
| "fadd NInf y = NInf"
| "fadd x NInf = NInf"
| "fadd NZero y = y"
| "fadd x NZero = x"
| "fadd (Fin a) (Fin b) = Fin (a + b)"

text \<open>Subtraction is addition of the negated right operand.\<close>

definition fsub :: "jsnum \<Rightarrow> jsnum \<Rightarrow> jsnum" where
  "fsub x y = fadd x (fneg y)"

text \<open>
  Multiplication: \<open>0 * Infinity\<close> is \<open>NaN\<close>; otherwise the sign is the exclusive or of
  the operands' signs, also for a zero result.
\<close>

definition fmul :: "jsnum \<Rightarrow> jsnum \<Rightarrow> jsnum" where
  "fmul x y =
     (if x = NaN \<or> y = NaN then NaN
      else if (is_inf x \<and> is_zero y) \<or> (is_zero x \<and> is_inf y) then NaN
      else if is_inf x \<or> is_inf y then (if negative x \<noteq> negative y then NInf else PInf)
      else if is_zero x \<or> is_zero y then (if negative x \<noteq> negative y then NZero else Fin 0)
      else Fin (val x * val y))"

text \<open>
  Division: \<open>0 / 0\<close> and \<open>Infinity / Infinity\<close> are \<open>NaN\<close>; a non-zero number divided
  by a zero is an infinity; the sign is again the exclusive or.
\<close>

definition fdiv :: "jsnum \<Rightarrow> jsnum \<Rightarrow> jsnum" where
  "fdiv x y =
     (if x = NaN \<or> y = NaN then NaN
      else if (is_inf x \<and> is_inf y) \<or> (is_zero x \<and> is_zero y) then NaN
      else if is_inf x \<or> is_zero y then (if negative x \<noteq> negative y then NInf else PInf)
      else if is_zero x \<or> is_inf y then (if negative x \<noteq> negative y then NZero else Fin 0)
      else Fin (val x / val y))"

text \<open>
  The comparisons \<open><\<close> and \<open><=\<close>: false as soon as an operand is \<open>NaN\<close>; the two
  zeros are equal.  \<open>x > y\<close> is \<open>flt y x\<close> and \<open>x >= y\<close> is \<open>fle y x\<close>.
\<close>

definition flt :: "jsnum \<Rightarrow> jsnum \<Rightarrow> bool" where
  "flt x y =
     (x \<noteq> NaN \<and> y \<noteq> NaN \<and> x \<noteq> PInf \<and> y \<noteq> NInf \<and>
      ((x = NInf \<or> y = PInf) \<or> val x < val y))"

definition fle :: "jsnum \<Rightarrow> jsnum \<Rightarrow> bool" where
  "fle x y =
     (x \<noteq> NaN \<and> y \<noteq> NaN \<and>
      (x = NInf \<or> y = PInf \<or> (x \<noteq> PInf \<and> y \<noteq> NInf \<and> val x \<le> val y)))"

text \<open>
  \<open>Math.max\<close> and \<open>Math.min\<close> of two arguments: \<open>NaN\<close> if an argument is \<open>NaN\<close>, and
  \<open>+0\<close> counts as larger than \<open>-0\<close>.  \<open>Math.abs\<close> clears the sign.
\<close>

definition Math_max :: "jsnum \<Rightarrow> jsnum \<Rightarrow> jsnum" where
  "Math_max x y =
     (if x = NaN \<or> y = NaN then NaN
      else if flt x y then y
      else if flt y x then x
      else if x = NZero then y else x)"

definition Math_min :: "jsnum \<Rightarrow> jsnum \<Rightarrow> jsnum" where
  "Math_min x y =
     (if x = NaN \<or> y = NaN then NaN
      else if flt x y then x
      else if flt y x then y
      else if x = NZero then x else y)"

fun Math_abs :: "jsnum \<Rightarrow> jsnum" where
  "Math_abs NaN = NaN"
| "Math_abs PInf = PInf"
| "Math_abs NInf = PInf"
| "Math_abs NZero = Fin 0"
| "Math_abs (Fin a) = Fin \<bar>a\<bar>"

section \<open>The data model\<close>

text \<open>The parameter object that \<open>runSimulation\<close> destructures.\<close>

record params =
  C_G_aq_0 :: jsnum
  C_G_s_0 :: jsnum
  C_A_aq_0 :: jsnum
  X_0 :: jsnum
  k_max :: jsnum
  K_s :: jsnum
  mu_max :: jsnum
  k_d :: jsnum
  Y_x :: jsnum
  K_d :: jsnum
  k_sorp :: jsnum
  theta :: jsnum
  Y_A :: jsnum
  k_A :: jsnum
  t_final :: jsnum
  dt :: jsnum

text \<open>\<open>DEFAULT_PARAMS\<close> of the source.\<close>

definition DEFAULT_PARAMS :: params where
  "DEFAULT_PARAMS =
     \<lparr>C_G_aq_0 = Fin 100, C_G_s_0 = Fin 0, C_A_aq_0 = Fin 0, X_0 = Fin 10,
      k_max = Fin (8 / 100), K_s = Fin 20, mu_max = Fin (5 / 100), k_d = Fin (5 / 1000),
      Y_x = Fin (3 / 10), K_d = Fin 50, k_sorp = Fin (1 / 10), theta = Fin (1 / 10),
      Y_A = Fin (6 / 10), k_A = Fin (2 / 100), t_final = Fin 336, dt = Fin (1 / 2)\<rparr>"

text \<open>One object pushed on \<open>results\<close> per loop iteration.\<close>

record snapshot =
  time_h :: jsnum
  time_days :: jsnum
  C_G_aq :: jsnum
  C_G_s :: jsnum
  C_A_aq :: jsnum
  X :: jsnum
  C_total :: jsnum
  removal_percent :: jsnum
  monod_factor :: jsnum
  r_degradation :: jsnum
  r_sorption :: jsnum

text \<open>The four \<open>let\<close> variables of \<open>runSimulation\<close> that the loop updates.\<close>

record vars =
  cur_C_G_aq :: jsnum
  cur_C_G_s :: jsnum
  cur_C_A_aq :: jsnum
  cur_X :: jsnum

text \<open>The object that \<open>calculateMetrics\<close> returns; \<open>T90 = None\<close> is \<open>null\<close>.\<close>

record metrics =
  removal_day3 :: jsnum
  removal_day7 :: jsnum
  removal_day14 :: jsnum
  C_G_aq_day3 :: jsnum
  C_G_aq_day7 :: jsnum
  C_G_aq_day14 :: jsnum
  X_max :: jsnum
  t_X_max :: jsnum
  X_final :: jsnum
  C_A_peak :: jsnum
  t_A_peak :: jsnum
  T90 :: "jsnum option"
  final_removal :: jsnum

text \<open>Reading a property of \<open>undefined\<close> throws a \<open>TypeError\<close>; the source throws nothing else.\<close>

datatype error = TypeError

section \<open>The simulation engine\<close>

definition init_vars :: "params \<Rightarrow> vars" where
  "init_vars p =
     \<lparr>cur_C_G_aq = C_G_aq_0 p, cur_C_G_s = C_G_s_0 p, cur_C_A_aq = C_A_aq_0 p, cur_X = X_0 p\<rparr>"

definition C_total_0 :: "params \<Rightarrow> jsnum" where
  "C_total_0 p = fadd (C_G_aq_0 p) (fmul (theta p) (C_G_s_0 p))"

text \<open>
  The constants of one loop iteration, as functions of the parameters and the variables.
  A constant whose name is also a field of the snapshot carries the suffix \<open>_now\<close>.
\<close>

definition monod :: "params \<Rightarrow> vars \<Rightarrow> jsnum" where
  "monod p v = fdiv (cur_C_G_aq v) (fadd (fadd (K_s p) (cur_C_G_aq v)) (Fin (1 / 10 ^ 10)))"

definition r_degradation_now :: "params \<Rightarrow> vars \<Rightarrow> jsnum" where
  "r_degradation_now p v = fmul (fmul (k_max p) (monod p v)) (cur_X v)"

definition r_sorption_now :: "params \<Rightarrow> vars \<Rightarrow> jsnum" where
  "r_sorption_now p v = fmul (k_sorp p) (fsub (cur_C_G_aq v) (fdiv (cur_C_G_s v) (K_d p)))"

definition r_growth :: "params \<Rightarrow> vars \<Rightarrow> jsnum" where
  "r_growth p v = fmul (fmul (mu_max p) (monod p v)) (cur_X v)"

definition r_death :: "params \<Rightarrow> vars \<Rightarrow> jsnum" where
  "r_death p v = fmul (k_d p) (cur_X v)"

definition r_AMPA_formation :: "params \<Rightarrow> vars \<Rightarrow> jsnum" where
  "r_AMPA_formation p v = fmul (Y_A p) (r_degradation_now p v)"

definition r_AMPA_degradation :: "params \<Rightarrow> vars \<Rightarrow> jsnum" where
  "r_AMPA_degradation p v = fmul (k_A p) (cur_C_A_aq v)"

definition dC_G_aq :: "params \<Rightarrow> vars \<Rightarrow> jsnum" where
  "dC_G_aq p v = fsub (fneg (r_degradation_now p v)) (r_sorption_now p v)"

definition dC_G_s :: "params \<Rightarrow> vars \<Rightarrow> jsnum" where
  "dC_G_s p v = fdiv (r_sorption_now p v) (theta p)"

definition dC_A_aq :: "params \<Rightarrow> vars \<Rightarrow> jsnum" where
  "dC_A_aq p v = fsub (r_AMPA_formation p v) (r_AMPA_degradation p v)"

definition dX :: "params \<Rightarrow> vars \<Rightarrow> jsnum" where
  "dX p v = fsub (r_growth p v) (r_death p v)"

definition C_total_now :: "params \<Rightarrow> vars \<Rightarrow> jsnum" where
  "C_total_now p v = fadd (cur_C_G_aq v) (fmul (theta p) (cur_C_G_s v))"

definition removal_percent_now :: "params \<Rightarrow> vars \<Rightarrow> jsnum" where
  "removal_percent_now p v =
     fmul (Fin 100) (fsub (Fin 1) (fdiv (C_total_now p v) (C_total_0 p)))"

text \<open>The object literal pushed at time \<open>t\<close>.\<close>

definition snapshot_at :: "params \<Rightarrow> jsnum \<Rightarrow> vars \<Rightarrow> snapshot" where
  "snapshot_at p t v =
     \<lparr>time_h = t,
      time_days = fdiv t (Fin 24),
      C_G_aq = Math_max (Fin 0) (cur_C_G_aq v),
      C_G_s = Math_max (Fin 0) (cur_C_G_s v),
      C_A_aq = Math_max (Fin 0) (cur_C_A_aq v),
      X = Math_max (Fin 0) (cur_X v),
      C_total = Math_max (Fin 0) (C_total_now p v),
      removal_percent = Math_min (Fin 100) (Math_max (Fin 0) (removal_percent_now p v)),
      monod_factor = monod p v,
      r_degradation = r_degradation_now p v,
      r_sorption = r_sorption_now p v\<rparr>"

text \<open>The four assignments that end an iteration; all read the pre-update rates.\<close>

definition advance :: "params \<Rightarrow> vars \<Rightarrow> vars" where
  "advance p v =
     \<lparr>cur_C_G_aq = Math_max (Fin 0) (fadd (cur_C_G_aq v) (fmul (dC_G_aq p v) (dt p))),
      cur_C_G_s = Math_max (Fin 0) (fadd (cur_C_G_s v) (fmul (dC_G_s p v) (dt p))),
      cur_C_A_aq = Math_max (Fin 0) (fadd (cur_C_A_aq v) (fmul (dC_A_aq p v) (dt p))),
      cur_X = Math_max (Fin 0) (fadd (cur_X v) (fmul (dX p v) (dt p)))\<rparr>"

text \<open>
  The loop \<open>for (let t = 0; t <= t_final; t += dt)\<close>.  It need not terminate, so the
  result is an option: \<open>None\<close> is a run that never returns.
\<close>

partial_function (option) sim_loop ::
  "params \<Rightarrow> jsnum \<Rightarrow> vars \<Rightarrow> snapshot list \<Rightarrow> snapshot list option" where
  "sim_loop p t v results =
     (if fle t (t_final p)
      then sim_loop p (fadd t (dt p)) (advance p v) (results @ [snapshot_at p t v])
      else Some results)"

definition runSimulation :: "params \<Rightarrow> snapshot list option" where
  "runSimulation p = sim_loop p (Fin 0) (init_vars p) []"

section \<open>The metrics extractor\<close>

text \<open>\<open>xs[i]\<close>: \<open>undefined\<close> (here \<open>None\<close>) outside the array.\<close>

definition at_index :: "'a list \<Rightarrow> int \<Rightarrow> 'a option" where
  "at_index xs i = (if 0 \<le> i \<and> i < int (length xs) then Some (xs ! nat i) else None)"

text \<open>\<open>a || b\<close> on values that are objects (truthy) or \<open>undefined\<close>.\<close>

definition or_else :: "'a option \<Rightarrow> 'a option \<Rightarrow> 'a option" where
  "or_else a b = (case a of Some x \<Rightarrow> Some x | None \<Rightarrow> b)"

text \<open>\<open>o.f\<close>: a \<open>TypeError\<close> when \<open>o\<close> is \<open>undefined\<close>.\<close>

definition get_prop :: "snapshot option \<Rightarrow> (snapshot \<Rightarrow> 'a) \<Rightarrow> error + 'a" where
  "get_prop ob f = (case ob of None \<Rightarrow> Inl TypeError | Some r \<Rightarrow> Inr (f r))"

definition bindE :: "error + 'a \<Rightarrow> ('a \<Rightarrow> error + 'b) \<Rightarrow> error + 'b" where
  "bindE m f = (case m of Inl e \<Rightarrow> Inl e | Inr x \<Rightarrow> f x)"

text \<open>The callback \<open>r => Math.abs(r.time_days - d) < 0.1\<close>.\<close>

definition near_day :: "jsnum \<Rightarrow> snapshot \<Rightarrow> bool" where
  "near_day d r = flt (Math_abs (fsub (time_days r) d)) (Fin (1 / 10))"

text \<open>
  \<open>results.reduce((max, r) => f(r) > f(max) ? r : max, results[0])\<close>.  On an empty
  array the callback never runs and the initial value \<open>undefined\<close> is returned.
\<close>

definition reduce_max :: "(snapshot \<Rightarrow> jsnum) \<Rightarrow> snapshot list \<Rightarrow> snapshot option" where
  "reduce_max f results =
     (case at_index results 0 of
        None \<Rightarrow> None
      | Some r0 \<Rightarrow> Some (foldl (\<lambda>m r. if flt (f m) (f r) then r else m) r0 results))"

definition day3_of :: "snapshot list \<Rightarrow> snapshot option" where
  "day3_of results = or_else (find (near_day (Fin 3)) results) (at_index results 0)"

definition day7_of :: "snapshot list \<Rightarrow> snapshot option" where
  "day7_of results = or_else (find (near_day (Fin 7)) results) (at_index results 0)"

definition day14_of :: "snapshot list \<Rightarrow> snapshot option" where
  "day14_of results =
     or_else (find (near_day (Fin 14)) results) (at_index results (int (length results) - 1))"

definition T90_point :: "snapshot list \<Rightarrow> snapshot option" where
  "T90_point results = find (\<lambda>r. fle (Fin 90) (removal_percent r)) results"

definition calculateMetrics :: "snapshot list \<Rightarrow> params \<Rightarrow> error + metrics" where
  "calculateMetrics results p =
     (let day3 = day3_of results;
          day7 = day7_of results;
          day14 = day14_of results;
          X_max_point = reduce_max X results;
          AMPA_peak = reduce_max C_A_aq results;
          T90v = (case T90_point results of Some r \<Rightarrow> Some (time_days r) | None \<Rightarrow> None);
          final = at_index results (int (length results) - 1)
      in bindE (get_prop day3 removal_percent) (\<lambda>a1.
         bindE (get_prop day7 removal_percent) (\<lambda>a2.
         bindE (get_prop day14 removal_percent) (\<lambda>a3.
         bindE (get_prop day3 C_G_aq) (\<lambda>a4.
         bindE (get_prop day7 C_G_aq) (\<lambda>a5.
         bindE (get_prop day14 C_G_aq) (\<lambda>a6.
         bindE (get_prop X_max_point X) (\<lambda>a7.
         bindE (get_prop X_max_point time_days) (\<lambda>a8.
         bindE (get_prop final X) (\<lambda>a9.
         bindE (get_prop AMPA_peak C_A_aq) (\<lambda>a10.
         bindE (get_prop AMPA_peak time_days) (\<lambda>a11.
         bindE (get_prop final removal_percent) (\<lambda>a12.
           Inr \<lparr>removal_day3 = a1, removal_day7 = a2, removal_day14 = a3,
                C_G_aq_day3 = a4, C_G_aq_day7 = a5, C_G_aq_day14 = a6,
                X_max = a7, t_X_max = a8, X_final = a9,
                C_A_peak = a10, t_A_peak = a11, T90 = T90v,
                final_removal = a12\<rparr>)))))))))))))"

section \<open>Auxiliary notions for the proofs\<close>

text \<open>
  The snapshots that \<open>n\<close> iterations of the loop push, starting at time \<open>t\<close> with the
  variables \<open>v\<close>; and the number of iterations the loop makes from time \<open>t\<close> when the
  step \<open>d\<close> is positive.
\<close>

fun traj :: "params \<Rightarrow> nat \<Rightarrow> jsnum \<Rightarrow> vars \<Rightarrow> snapshot list" where
  "traj p 0 t v = []"
| "traj p (Suc n) t v = snapshot_at p t v # traj p n (fadd t (dt p)) (advance p v)"

definition iterations :: "real \<Rightarrow> real \<Rightarrow> real \<Rightarrow> nat" where
  "iterations T d t = (if t \<le> T then nat \<lfloor>(T - t) / d\<rfloor> + 1 else 0)"

text \<open>
  The words of the specification for a day lookup: \<open>r\<close> is the first snapshot, in
  trajectory order, whose day value is within the tolerance of the target \<open>d\<close>; and no
  snapshot is within the tolerance.
\<close>

definition first_within_tolerance :: "jsnum \<Rightarrow> snapshot list \<Rightarrow> snapshot \<Rightarrow> bool" where
  "first_within_tolerance d results r =
     (\<exists>i<length results. near_day d (results ! i) \<and> (\<forall>j<i. \<not> near_day d (results ! j)) \<and>
        r = results ! i)"

definition none_within_tolerance :: "jsnum \<Rightarrow> snapshot list \<Rightarrow> bool" where
  "none_within_tolerance d results = (\<forall>r\<in>set results. \<not> near_day d r)"

text \<open>
  The words of the specification for T90: \<open>r\<close> is the first snapshot whose removal
  percentage is at least 90; and no snapshot reaches 90.
\<close>

definition first_reaching_90 :: "snapshot list \<Rightarrow> snapshot \<Rightarrow> bool" where
  "first_reaching_90 results r =
     (\<exists>i<length results. fle (Fin 90) (removal_percent (results ! i)) \<and>
        (\<forall>j<i. \<not> fle (Fin 90) (removal_percent (results ! j))) \<and> r = results ! i)"

definition never_reaching_90 :: "snapshot list \<Rightarrow> bool" where
  "never_reaching_90 results = (\<forall>r\<in>set results. \<not> fle (Fin 90) (removal_percent r))"

text \<open>Two small trajectories used as concrete inputs: a week of three samples, and one day.\<close>

definition week_trajectory :: "snapshot list" where
  "week_trajectory =
     [\<lparr>time_h = Fin 0, time_days = Fin 0, C_G_aq = Fin 100, C_G_s = Fin 0, C_A_aq = Fin 0,
       X = Fin 10, C_total = Fin 100, removal_percent = Fin 0, monod_factor = Fin (5 / 6),
       r_degradation = Fin (2 / 3), r_sorption = Fin 10\<rparr>,
      \<lparr>time_h = Fin 72, time_days = Fin 3, C_G_aq = Fin 40, C_G_s = Fin 100, C_A_aq = Fin 20,
       X = Fin 30, C_total = Fin 50, removal_percent = Fin 50, monod_factor = Fin (2 / 3),
       r_degradation = Fin (8 / 5), r_sorption = Fin 4\<rparr>,
      \<lparr>time_h = Fin 168, time_days = Fin 7, C_G_aq = Fin 4, C_G_s = Fin 10, C_A_aq = Fin 30,
       X = Fin 25, C_total = Fin 5, removal_percent = Fin 95, monod_factor = Fin (1 / 6),
       r_degradation = Fin (1 / 3), r_sorption = Fin (2 / 5)\<rparr>]"

definition day_trajectory :: "snapshot list" where
  "day_trajectory =
     [\<lparr>time_h = Fin 0, time_days = Fin 0, C_G_aq = Fin 100, C_G_s = Fin 0, C_A_aq = Fin 0,
       X = Fin 10, C_total = Fin 100, removal_percent = Fin 0, monod_factor = Fin (5 / 6),
       r_degradation = Fin (2 / 3), r_sorption = Fin 10\<rparr>,
      \<lparr>time_h = Fin 24, time_days = Fin 1, C_G_aq = Fin 60, C_G_s = Fin 300, C_A_aq = Fin 5,
       X = Fin 12, C_total = Fin 90, removal_percent = Fin 10, monod_factor = Fin (3 / 4),
       r_degradation = Fin (18 / 25), r_sorption = Fin (27 / 5)\<rparr>]"

text \<open>Variables that are all finite numbers (and not the negative zero).\<close>

definition mk_vars :: "real \<Rightarrow> real \<Rightarrow> real \<Rightarrow> real \<Rightarrow> vars" where
  "mk_vars aq s a x = \<lparr>cur_C_G_aq = Fin aq, cur_C_G_s = Fin s, cur_C_A_aq = Fin a, cur_X = Fin x\<rparr>"

text \<open>
  The invariant of the run on \<open>DEFAULT_PARAMS\<close> from the second iteration on: nothing
  is negative, the biomass plus 5/8 of the total glyphosate stays below its initial value
  72.5 (5/8 is \<open>mu_max / k_max\<close>), and the total glyphosate is below the initial 100.
\<close>

definition golden_inv :: "vars \<Rightarrow> bool" where
  "golden_inv v =
     (\<exists>aq s a x. v = mk_vars aq s a x \<and> 0 \<le> aq \<and> 0 \<le> s \<and> 0 \<le> a \<and> 0 \<le> x \<and>
        x + 5 / 8 * (aq + s / 10) \<le> 145 / 2 \<and> aq + s / 10 < 100)"

text \<open>Numbers that are a zero or \<open>NaN\<close>, and variables without glyphosate.\<close>

definition zero_or_NaN :: "jsnum \<Rightarrow> bool" where
  "zero_or_NaN x = (is_zero x \<or> x = NaN)"

definition zero_mass_vars :: "vars \<Rightarrow> bool" where
  "zero_mass_vars v = (zero_or_NaN (cur_C_G_aq v) \<and> zero_or_NaN (cur_C_G_s v))"

text \<open>
  The input constraints of the engine: every parameter is a finite number, the step is
  positive and not longer than the run, no initial concentration is negative, and the
  divisors are safe (\<open>K_s\<close> is not negative, \<open>K_d\<close> and \<open>theta\<close> are positive).
  \<open>Y_x\<close> is destructured but never read.
\<close>

definition valid_params :: "params \<Rightarrow> bool" where
  "valid_params p =
     (isFin (C_G_aq_0 p) \<and> isFin (C_G_s_0 p) \<and> isFin (C_A_aq_0 p) \<and> isFin (X_0 p) \<and>
      isFin (k_max p) \<and> isFin (K_s p) \<and> isFin (mu_max p) \<and> isFin (k_d p) \<and>
      isFin (K_d p) \<and> isFin (k_sorp p) \<and> isFin (theta p) \<and> isFin (Y_A p) \<and>
      isFin (k_A p) \<and> isFin (t_final p) \<and> isFin (dt p) \<and>
      0 < val (dt p) \<and> val (dt p) \<le> val (t_final p) \<and>
      0 \<le> val (C_G_aq_0 p) \<and> 0 \<le> val (C_G_s_0 p) \<and> 0 \<le> val (C_A_aq_0 p) \<and>
      0 \<le> val (X_0 p) \<and> 0 \<le> val (K_s p) \<and> 0 < val (K_d p) \<and> 0 < val (theta p))"

text \<open>
  Parameter sets used as concrete inputs.  All are \<open>DEFAULT_PARAMS\<close> with a few fields
  changed; a run of one hour has three snapshots, a run of half an hour has two.
\<close>

definition no_glyphosate :: params where
  "no_glyphosate = DEFAULT_PARAMS\<lparr>C_G_aq_0 := Fin 0, t_final := Fin 1\<rparr>"

definition no_glyphosate_no_biomass :: params where
  "no_glyphosate_no_biomass = DEFAULT_PARAMS\<lparr>C_G_aq_0 := Fin 0, X_0 := Fin 0, t_final := Fin 1\<rparr>"

definition no_glyphosate_no_kinetics :: params where
  "no_glyphosate_no_kinetics =
     DEFAULT_PARAMS\<lparr>C_G_aq_0 := Fin 0, k_max := Fin 0, k_sorp := Fin 0, t_final := Fin 1\<rparr>"

definition sorbed_only_no_solids :: params where
  "sorbed_only_no_solids =
     DEFAULT_PARAMS\<lparr>C_G_aq_0 := Fin 0, C_G_s_0 := Fin 5, theta := Fin 0, t_final := Fin (1 / 2)\<rparr>"

section \<open>Arithmetic on finite numbers\<close>

lemma fle_fin [simp]: "isFin x \<Longrightarrow> isFin y \<Longrightarrow> fle x y = (val x \<le> val y)"
  by (cases x; cases y) (simp_all add: fle_def)

lemma flt_fin [simp]: "isFin x \<Longrightarrow> isFin y \<Longrightarrow> flt x y = (val x < val y)"
  by (cases x; cases y) (simp_all add: flt_def)

lemma fneg_fin [simp]: "isFin x \<Longrightarrow> isFin (fneg x) \<and> val (fneg x) = - val x"
  by (cases x) simp_all

lemma fadd_fin [simp]:
  "isFin x \<Longrightarrow> isFin y \<Longrightarrow> isFin (fadd x y) \<and> val (fadd x y) = val x + val y"
  by (cases x; cases y) simp_all

lemma fsub_fin [simp]:
  "isFin x \<Longrightarrow> isFin y \<Longrightarrow> isFin (fsub x y) \<and> val (fsub x y) = val x - val y"
  by (simp add: fsub_def)

lemma fmul_fin [simp]:
  "isFin x \<Longrightarrow> isFin y \<Longrightarrow> isFin (fmul x y) \<and> val (fmul x y) = val x * val y"
  by (cases x; cases y) (simp_all add: fmul_def)

lemma fdiv_fin [simp]:
  "isFin x \<Longrightarrow> isFin y \<Longrightarrow> val y \<noteq> 0 \<Longrightarrow>
   isFin (fdiv x y) \<and> val (fdiv x y) = val x / val y"
  by (cases x; cases y) (simp_all add: fdiv_def)

lemma Math_max_0_fin [simp]: "isFin x \<Longrightarrow> Math_max (Fin 0) x = Fin (max 0 (val x))"
  by (cases x) (auto simp: Math_max_def flt_def max_def)

lemma Math_min_100_fin [simp]: "Math_min (Fin 100) (Fin a) = Fin (min 100 a)"
  by (auto simp: Math_min_def flt_def min_def)

lemma fle_trans_0: "fle t (Fin 0) \<Longrightarrow> fle (Fin 0) T \<Longrightarrow> fle t T"
  by (cases t; cases T) (simp_all add: fle_def)

lemma fle_fadd_nonpos: "fle t (Fin 0) \<Longrightarrow> fle d (Fin 0) \<Longrightarrow> fle (fadd t d) (Fin 0)"
  by (cases t; cases d) (simp_all add: fle_def)

lemma flt_not_fle: "flt T d \<Longrightarrow> \<not> fle d T"
  by (cases T; cases d) (simp_all add: flt_def fle_def)

lemma fadd_0_above: "fle (Fin 0) T \<Longrightarrow> flt T d \<Longrightarrow> fadd (Fin 0) d = d"
  by (cases T; cases d) (simp_all add: flt_def fle_def)

lemmas eval_defs = snapshot_at_def advance_def init_vars_def monod_def r_degradation_now_def
  r_sorption_now_def r_growth_def r_death_def r_AMPA_formation_def r_AMPA_degradation_def
  dC_G_aq_def dC_G_s_def dC_A_aq_def dX_def C_total_now_def removal_percent_now_def
  C_total_0_def fmul_def fdiv_def fsub_def flt_def fle_def Math_max_def Math_min_def

section \<open>The loop: when it stops, what it returns, when it never returns\<close>

lemma sim_loop_stop: "\<not> fle t (t_final p) \<Longrightarrow> sim_loop p t v acc = Some acc"
  by (subst sim_loop.simps) simp

lemma sim_loop_step:
  "fle t (t_final p) \<Longrightarrow>
   sim_loop p t v acc = sim_loop p (fadd t (dt p)) (advance p v) (acc @ [snapshot_at p t v])"
  by (subst sim_loop.simps) simp

lemma iterations_Suc:
  assumes "0 < d" "t \<le> T"
  shows "iterations T d t = Suc (iterations T d (t + d))"
proof (cases "t + d \<le> T")
  case True
  have "(T - t) / d = (T - (t + d)) / d + 1"
    using assms by (simp add: field_simps)
  then have "\<lfloor>(T - t) / d\<rfloor> = \<lfloor>(T - (t + d)) / d\<rfloor> + 1"
    by simp
  moreover have "0 \<le> \<lfloor>(T - (t + d)) / d\<rfloor>"
    using True assms by simp
  ultimately show ?thesis
    using True assms by (simp add: iterations_def nat_add_distrib)
next
  case False
  then have "(T - t) / d < 1" using assms by (simp add: field_simps)
  moreover have "0 \<le> (T - t) / d" using assms by simp
  ultimately have "\<lfloor>(T - t) / d\<rfloor> = 0" by linarith
  then show ?thesis using False assms by (simp add: iterations_def)
qed

text \<open>With a positive finite step and a finite end time the loop returns, and what it
  returns is the accumulated list followed by \<open>traj\<close>.  The number of iterations is
  that of the exact sums \<open>0, dt, 2 * dt, ...\<close>; it is the source's number when these
  sums are exact in binary64, as they are for the dyadic step 0.5 of the defaults.\<close>

lemma sim_loop_traj:
  assumes "dt p = Fin d" "0 < d" "isFin (t_final p)"
  shows "iterations (val (t_final p)) d t = n \<Longrightarrow>
         sim_loop p (Fin t) v acc = Some (acc @ traj p n (Fin t) v)"
proof (induction n arbitrary: t v acc)
  case 0
  then have "\<not> t \<le> val (t_final p)"
    by (auto simp: iterations_def split: if_splits)
  then show ?case using assms by (simp add: sim_loop_stop)
next
  case (Suc n)
  then have le: "t \<le> val (t_final p)"
    by (auto simp: iterations_def split: if_splits)
  with Suc.prems assms have "iterations (val (t_final p)) d (t + d) = n"
    by (simp add: iterations_Suc)
  from Suc.IH[OF this] have
    "sim_loop p (Fin (t + d)) (advance p v) (acc @ [snapshot_at p (Fin t) v]) =
       Some ((acc @ [snapshot_at p (Fin t) v]) @ traj p n (Fin (t + d)) (advance p v))" .
  moreover have "fle (Fin t) (t_final p)" using le assms by simp
  ultimately show ?case using assms by (simp add: sim_loop_step)
qed

lemma runSimulation_traj:
  assumes "dt p = Fin d" "0 < d" "isFin (t_final p)"
  shows "runSimulation p =
    Some (traj p (iterations (val (t_final p)) d 0) (Fin 0) (init_vars p))"
  using sim_loop_traj[OF assms refl, of 0 "init_vars p" "[]"]
  by (simp add: runSimulation_def)

text \<open>With a step that is zero or negative the time never passes a non-negative end
  time: no call of the loop returns.\<close>

lemma sim_loop_never_returns:
  assumes run: "sim_loop p t v acc = Some y"
  shows "\<not> (fle (dt p) (Fin 0) \<and> fle (Fin 0) (t_final p) \<and> fle t (Fin 0))"
proof (rule sim_loop.raw_induct
    [where P = "\<lambda>p t v acc y. \<not> (fle (dt p) (Fin 0) \<and> fle (Fin 0) (t_final p) \<and> fle t (Fin 0))",
      OF _ run])
  fix f p t v acc y
  assume IH: "\<And>p t v acc y. f p t v acc = Some y \<Longrightarrow>
      \<not> (fle (dt p) (Fin 0) \<and> fle (Fin 0) (t_final p) \<and> fle t (Fin 0))"
    and body: "(if fle t (t_final p)
      then f p (fadd t (dt p)) (advance p v) (acc @ [snapshot_at p t v])
      else Some acc) = Some y"
  show "\<not> (fle (dt p) (Fin 0) \<and> fle (Fin 0) (t_final p) \<and> fle t (Fin 0))"
  proof
    assume h: "fle (dt p) (Fin 0) \<and> fle (Fin 0) (t_final p) \<and> fle t (Fin 0)"
    then have "fle t (t_final p)" by (blast intro: fle_trans_0)
    with body have "f p (fadd t (dt p)) (advance p v) (acc @ [snapshot_at p t v]) = Some y"
      by simp
    from IH[OF this] h show False by (blast intro: fle_fadd_nonpos)
  qed
qed

lemma runSimulation_diverges:
  assumes "fle (dt p) (Fin 0)" "fle (Fin 0) (t_final p)"
  shows "runSimulation p = None"
proof (cases "runSimulation p")
  case None
  then show ?thesis .
next
  case (Some y)
  have "fle (Fin 0) (Fin 0)" by (simp add: fle_def)
  with assms sim_loop_never_returns[of p "Fin 0" "init_vars p" "[]" y] Some
  show ?thesis by (simp add: runSimulation_def)
qed

section \<open>The metrics extractor on a non-empty trajectory\<close>

lemma at_index_0: "at_index xs 0 = (case xs of [] \<Rightarrow> None | x # _ \<Rightarrow> Some x)"
  by (cases xs) (simp_all add: at_index_def)

lemma at_index_last:
  "at_index xs (int (length xs) - 1) = (if xs = [] then None else Some (last xs))"
  by (cases xs rule: rev_cases) (simp_all add: at_index_def nth_append)

lemma day3_of_nonempty:
  "results \<noteq> [] \<Longrightarrow>
   day3_of results =
     Some (case find (near_day (Fin 3)) results of Some r \<Rightarrow> r | None \<Rightarrow> hd results)"
  by (cases results) (simp_all add: day3_of_def or_else_def at_index_0 split: option.splits)

lemma day7_of_nonempty:
  "results \<noteq> [] \<Longrightarrow>
   day7_of results =
     Some (case find (near_day (Fin 7)) results of Some r \<Rightarrow> r | None \<Rightarrow> hd results)"
  by (cases results) (simp_all add: day7_of_def or_else_def at_index_0 split: option.splits)

lemma day14_of_nonempty:
  "results \<noteq> [] \<Longrightarrow>
   day14_of results =
     Some (case find (near_day (Fin 14)) results of Some r \<Rightarrow> r | None \<Rightarrow> last results)"
  by (simp add: day14_of_def or_else_def at_index_last split: option.splits)

lemma reduce_max_nonempty:
  "results \<noteq> [] \<Longrightarrow>
   reduce_max f results =
     Some (foldl (\<lambda>m r. if flt (f m) (f r) then r else m) (hd results) results)"
  by (cases results) (simp_all add: reduce_max_def at_index_0)

lemma calculateMetrics_nonempty:
  assumes "results \<noteq> []"
  shows "calculateMetrics results p =
     Inr \<lparr>removal_day3 = removal_percent (the (day3_of results)),
          removal_day7 = removal_percent (the (day7_of results)),
          removal_day14 = removal_percent (the (day14_of results)),
          C_G_aq_day3 = C_G_aq (the (day3_of results)),
          C_G_aq_day7 = C_G_aq (the (day7_of results)),
          C_G_aq_day14 = C_G_aq (the (day14_of results)),
          X_max = X (the (reduce_max X results)),
          t_X_max = time_days (the (reduce_max X results)),
          X_final = X (last results),
          C_A_peak = C_A_aq (the (reduce_max C_A_aq results)),
          t_A_peak = time_days (the (reduce_max C_A_aq results)),
          T90 = map_option time_days (T90_point results),
          final_removal = removal_percent (last results)\<rparr>"
  using assms
  by (simp add: calculateMetrics_def Let_def bindE_def get_prop_def day3_of_nonempty
      day7_of_nonempty day14_of_nonempty reduce_max_nonempty at_index_last
      split: option.splits)

lemma find_first_or_none:
  "(case find P xs of
      Some r \<Rightarrow> \<exists>i<length xs. P (xs ! i) \<and> (\<forall>j<i. \<not> P (xs ! j)) \<and> r = xs ! i
    | None \<Rightarrow> \<forall>x\<in>set xs. \<not> P x)"
  by (auto split: option.splits simp: find_Some_iff find_None_iff)

section \<open>Claims about the metrics extractor\<close>

text \<open>
  Claim C9.  \<open>calculateMetrics\<close> needs a non-empty trajectory: on the trajectory with no
  snapshot it raises an error instead of returning a metrics summary.  In the source the
  error is the \<open>TypeError\<close> of reading \<open>removal_percent\<close> of \<open>undefined\<close>: every
  lookup of an empty array is \<open>undefined\<close>, and the first field of the returned object
  reads a property of it.
\<close>

theorem calculateMetrics_empty_raises: "calculateMetrics [] p = Inl TypeError"
  by (simp add: calculateMetrics_def Let_def bindE_def get_prop_def day3_of_def or_else_def
      at_index_def)

text \<open>
  Claim C7.  On every non-empty trajectory \<open>calculateMetrics\<close> returns a summary whose
  \<open>T90\<close> is the \<open>time_days\<close> of the first snapshot, in trajectory order, whose
  \<open>removal_percent\<close> is at least 90, and is \<open>null\<close> (not reached) when no snapshot has a
  \<open>removal_percent\<close> of at least 90.
\<close>

theorem T90_first_snapshot_reaching_90:
  assumes "results \<noteq> []"
  shows "\<exists>m. calculateMetrics results p = Inr m \<and>
           ((\<exists>r. first_reaching_90 results r \<and> T90 m = Some (time_days r)) \<or>
            (never_reaching_90 results \<and> T90 m = None))"
proof -
  let ?P = "\<lambda>r. fle (Fin 90) (removal_percent r)"
  show ?thesis
  proof (cases "find ?P results")
    case None
    then have "never_reaching_90 results"
      using find_first_or_none[where P = "?P" and xs = results] by (simp add: never_reaching_90_def)
    with None assms show ?thesis
      by (simp add: calculateMetrics_nonempty T90_point_def)
  next
    case (Some r)
    then have "first_reaching_90 results r"
      using find_first_or_none[where P = "?P" and xs = results] by (simp add: first_reaching_90_def)
    with Some assms show ?thesis
      by (auto simp: calculateMetrics_nonempty T90_point_def)
  qed
qed

text \<open>
  Witness for claim C7: in the week of three samples the third one is the first to reach
  90 percent, at day 7; in the one-day trajectory none does.
\<close>

theorem T90_first_snapshot_reaching_90_witness:
  "week_trajectory \<noteq> [] \<and>
   (\<exists>m. calculateMetrics week_trajectory DEFAULT_PARAMS = Inr m \<and> T90 m = Some (Fin 7)) \<and>
   day_trajectory \<noteq> [] \<and>
   (\<exists>m. calculateMetrics day_trajectory DEFAULT_PARAMS = Inr m \<and> T90 m = None)"
proof -
  have w: "week_trajectory \<noteq> []" and d: "day_trajectory \<noteq> []"
    by (simp_all add: week_trajectory_def day_trajectory_def)
  have nw: "\<not> never_reaching_90 week_trajectory"
    by (simp add: never_reaching_90_def week_trajectory_def fle_def)
  have fw: "first_reaching_90 week_trajectory r \<Longrightarrow> time_days r = Fin 7" for r
    unfolding first_reaching_90_def
    by (auto simp: week_trajectory_def fle_def less_Suc_eq numeral_3_eq_3)
  have nd: "\<not> first_reaching_90 day_trajectory r" for r
    unfolding first_reaching_90_def
    by (auto simp: day_trajectory_def fle_def less_Suc_eq numeral_2_eq_2)
  from T90_first_snapshot_reaching_90[OF w, of DEFAULT_PARAMS] nw fw
  have 1: "\<exists>m. calculateMetrics week_trajectory DEFAULT_PARAMS = Inr m \<and> T90 m = Some (Fin 7)"
    by auto
  from T90_first_snapshot_reaching_90[OF d, of DEFAULT_PARAMS] nd
  have 2: "\<exists>m. calculateMetrics day_trajectory DEFAULT_PARAMS = Inr m \<and> T90 m = None"
    by auto
  from w d 1 2 show ?thesis by blast
qed

text \<open>
  Claim C1, as the code has it.  On every non-empty trajectory each of the lookups for
  day 3, day 7 and day 14 chooses the first snapshot, in trajectory order, whose
  \<open>time_days\<close> is within 0.1 of the target; when no snapshot is within that tolerance the
  lookups for day 3 and day 7 fall back to the first snapshot of the trajectory, and the
  lookup for day 14 falls back to the last one.  The summary reports the
  \<open>removal_percent\<close> and the \<open>C_G_aq\<close> of the chosen snapshots.
\<close>

theorem day_lookups_first_within_tolerance_or_fallback:
  assumes "results \<noteq> []"
  shows "\<exists>m r3 r7 r14. calculateMetrics results p = Inr m \<and>
     removal_day3 m = removal_percent r3 \<and> C_G_aq_day3 m = C_G_aq r3 \<and>
     removal_day7 m = removal_percent r7 \<and> C_G_aq_day7 m = C_G_aq r7 \<and>
     removal_day14 m = removal_percent r14 \<and> C_G_aq_day14 m = C_G_aq r14 \<and>
     (first_within_tolerance (Fin 3) results r3 \<or>
        none_within_tolerance (Fin 3) results \<and> r3 = hd results) \<and>
     (first_within_tolerance (Fin 7) results r7 \<or>
        none_within_tolerance (Fin 7) results \<and> r7 = hd results) \<and>
     (first_within_tolerance (Fin 14) results r14 \<or>
        none_within_tolerance (Fin 14) results \<and> r14 = last results)"
proof -
  have pick: "first_within_tolerance d results
        (case find (near_day d) results of Some r \<Rightarrow> r | None \<Rightarrow> fb) \<or>
      none_within_tolerance d results \<and>
        (case find (near_day d) results of Some r \<Rightarrow> r | None \<Rightarrow> fb) = fb" for d fb
    using find_first_or_none[where P = "near_day d" and xs = results]
    by (auto simp: first_within_tolerance_def none_within_tolerance_def split: option.splits)
  show ?thesis
    using assms pick[of "Fin 3" "hd results"] pick[of "Fin 7" "hd results"]
      pick[of "Fin 14" "last results"]
    by (simp add: calculateMetrics_nonempty day3_of_nonempty day7_of_nonempty
        day14_of_nonempty) blast
qed

text \<open>
  Witness for claim C1 (as the code has it): in the week of three samples day 3 finds the
  second snapshot, day 7 the third, and day 14, with no snapshot within the tolerance,
  takes the last.
\<close>

theorem day_lookups_witness:
  "week_trajectory \<noteq> [] \<and>
   (\<exists>m. calculateMetrics week_trajectory DEFAULT_PARAMS = Inr m \<and>
      removal_day3 m = Fin 50 \<and> C_G_aq_day3 m = Fin 40 \<and>
      removal_day7 m = Fin 95 \<and> C_G_aq_day7 m = Fin 4 \<and>
      removal_day14 m = Fin 95 \<and> C_G_aq_day14 m = Fin 4)"
proof -
  have w: "week_trajectory \<noteq> []"
    by (simp add: week_trajectory_def)
  have n3: "\<not> none_within_tolerance (Fin 3) week_trajectory"
    and n7: "\<not> none_within_tolerance (Fin 7) week_trajectory"
    by (simp_all add: none_within_tolerance_def week_trajectory_def near_day_def fsub_def flt_def)
  have f3: "first_within_tolerance (Fin 3) week_trajectory r \<Longrightarrow> r = week_trajectory ! 1" for r
    unfolding first_within_tolerance_def
    by (auto simp: week_trajectory_def near_day_def fsub_def flt_def less_Suc_eq numeral_3_eq_3)
  have f7: "first_within_tolerance (Fin 7) week_trajectory r \<Longrightarrow> r = week_trajectory ! 2" for r
    unfolding first_within_tolerance_def
    by (auto simp: week_trajectory_def near_day_def fsub_def flt_def less_Suc_eq numeral_3_eq_3)
  have f14: "\<not> first_within_tolerance (Fin 14) week_trajectory r" for r
    unfolding first_within_tolerance_def
    by (auto simp: week_trajectory_def near_day_def fsub_def flt_def less_Suc_eq numeral_3_eq_3)
  from day_lookups_first_within_tolerance_or_fallback[OF w, of DEFAULT_PARAMS]
  obtain m r3 r7 r14 where m: "calculateMetrics week_trajectory DEFAULT_PARAMS = Inr m"
    and v: "removal_day3 m = removal_percent r3" "C_G_aq_day3 m = C_G_aq r3"
      "removal_day7 m = removal_percent r7" "C_G_aq_day7 m = C_G_aq r7"
      "removal_day14 m = removal_percent r14" "C_G_aq_day14 m = C_G_aq r14"
    and c3: "first_within_tolerance (Fin 3) week_trajectory r3 \<or>
        none_within_tolerance (Fin 3) week_trajectory \<and> r3 = hd week_trajectory"
    and c7: "first_within_tolerance (Fin 7) week_trajectory r7 \<or>
        none_within_tolerance (Fin 7) week_trajectory \<and> r7 = hd week_trajectory"
    and c14: "first_within_tolerance (Fin 14) week_trajectory r14 \<or>
        none_within_tolerance (Fin 14) week_trajectory \<and> r14 = last week_trajectory"
    by blast
  from c3 n3 f3 have "r3 = week_trajectory ! 1" by blast
  moreover from c7 n7 f7 have "r7 = week_trajectory ! 2" by blast
  moreover from c14 f14 have "r14 = last week_trajectory" by blast
  ultimately have "removal_day3 m = Fin 50 \<and> C_G_aq_day3 m = Fin 40 \<and>
      removal_day7 m = Fin 95 \<and> C_G_aq_day7 m = Fin 4 \<and>
      removal_day14 m = Fin 95 \<and> C_G_aq_day14 m = Fin 4"
    using v by (simp add: week_trajectory_def)
  with m w show ?thesis by blast
qed

text \<open>
  Counterexample to claim C1 as stated: the one-day trajectory is shorter than 3 days and
  has no snapshot within the tolerance of day 14, yet the day-14 metrics are those of its
  last snapshot (removal 10, aqueous 60), not of its first (removal 0, aqueous 100).
\<close>

theorem day14_falls_back_to_last_counterexample:
  "none_within_tolerance (Fin 14) day_trajectory \<and>
   calculateMetrics day_trajectory DEFAULT_PARAMS =
     Inr \<lparr>removal_day3 = Fin 0, removal_day7 = Fin 0, removal_day14 = Fin 10,
          C_G_aq_day3 = Fin 100, C_G_aq_day7 = Fin 100, C_G_aq_day14 = Fin 60,
          X_max = Fin 12, t_X_max = Fin 1, X_final = Fin 12,
          C_A_peak = Fin 5, t_A_peak = Fin 1, T90 = None, final_removal = Fin 10\<rparr> \<and>
   removal_percent (hd day_trajectory) = Fin 0 \<and> C_G_aq (hd day_trajectory) = Fin 100"
  by (simp add: none_within_tolerance_def calculateMetrics_nonempty day_trajectory_def
      day3_of_def day7_of_def day14_of_def or_else_def at_index_def near_day_def
      reduce_max_def T90_point_def fsub_def flt_def fle_def)

section \<open>Claims about the validation of the parameters\<close>

text \<open>
  Claim C2, as the code has it.  \<open>runSimulation\<close> validates nothing and raises no
  invalid-parameter error.  With a negative \<open>t_final\<close> it returns the empty trajectory;
  with \<open>0 <= t_final < dt\<close> it returns the trajectory of the single snapshot at time 0;
  with \<open>dt <= 0 <= t_final\<close> it never returns; and with a finite \<open>0 < dt <= t_final\<close>
  it returns a trajectory that starts with the snapshot of the initial values, whatever
  the initial concentrations are, negative ones included.
\<close>

theorem runSimulation_validates_nothing:
  "(flt (t_final p) (Fin 0) \<longrightarrow> runSimulation p = Some []) \<and>
   (fle (Fin 0) (t_final p) \<and> flt (t_final p) (dt p) \<longrightarrow>
      runSimulation p = Some [snapshot_at p (Fin 0) (init_vars p)]) \<and>
   (fle (dt p) (Fin 0) \<and> fle (Fin 0) (t_final p) \<longrightarrow> runSimulation p = None) \<and>
   (isFin (dt p) \<and> isFin (t_final p) \<and> flt (Fin 0) (dt p) \<and> fle (dt p) (t_final p) \<longrightarrow>
      (\<exists>rest. runSimulation p = Some (snapshot_at p (Fin 0) (init_vars p) # rest)))"
proof (intro conjI impI)
  assume "flt (t_final p) (Fin 0)"
  then have "\<not> fle (Fin 0) (t_final p)" by (rule flt_not_fle)
  then show "runSimulation p = Some []"
    by (simp add: runSimulation_def sim_loop_stop)
next
  assume h: "fle (Fin 0) (t_final p) \<and> flt (t_final p) (dt p)"
  then have "fadd (Fin 0) (dt p) = dt p" and "\<not> fle (dt p) (t_final p)"
    using fadd_0_above[of "t_final p" "dt p"] flt_not_fle[of "t_final p" "dt p"] by simp_all
  with h show "runSimulation p = Some [snapshot_at p (Fin 0) (init_vars p)]"
    by (simp add: runSimulation_def sim_loop_step sim_loop_stop)
next
  assume "fle (dt p) (Fin 0) \<and> fle (Fin 0) (t_final p)"
  then show "runSimulation p = None" by (simp add: runSimulation_diverges)
next
  assume h: "isFin (dt p) \<and> isFin (t_final p) \<and> flt (Fin 0) (dt p) \<and> fle (dt p) (t_final p)"
  then obtain d where d: "dt p = Fin d" "0 < d"
    by (cases "dt p") auto
  from h d have "0 \<le> val (t_final p)" by auto
  then obtain n where "iterations (val (t_final p)) d 0 = Suc n"
    by (auto simp: iterations_def)
  with runSimulation_traj[OF d] h
  show "\<exists>rest. runSimulation p = Some (snapshot_at p (Fin 0) (init_vars p) # rest)"
    by simp
qed

text \<open>
  Witness for claim C2 (as the code has it): the default parameters with \<open>t_final = -24\<close>,
  with \<open>dt = 0\<close>, with \<open>dt = -0.5\<close>, with \<open>dt = 400 > t_final\<close>, and with a
  negative initial aqueous concentration.
\<close>

theorem runSimulation_validates_nothing_witness:
  "runSimulation (DEFAULT_PARAMS\<lparr>t_final := Fin (- 24)\<rparr>) = Some [] \<and>
   runSimulation (DEFAULT_PARAMS\<lparr>dt := Fin 0\<rparr>) = None \<and>
   runSimulation (DEFAULT_PARAMS\<lparr>dt := Fin (- 1 / 2)\<rparr>) = None \<and>
   runSimulation (DEFAULT_PARAMS\<lparr>dt := Fin 400\<rparr>) =
     Some [snapshot_at (DEFAULT_PARAMS\<lparr>dt := Fin 400\<rparr>) (Fin 0)
             (init_vars (DEFAULT_PARAMS\<lparr>dt := Fin 400\<rparr>))] \<and>
   (\<exists>rest. runSimulation (DEFAULT_PARAMS\<lparr>C_G_aq_0 := Fin (- 5)\<rparr>) =
      Some (snapshot_at (DEFAULT_PARAMS\<lparr>C_G_aq_0 := Fin (- 5)\<rparr>) (Fin 0)
             (init_vars (DEFAULT_PARAMS\<lparr>C_G_aq_0 := Fin (- 5)\<rparr>)) # rest))"
  using runSimulation_validates_nothing[of "DEFAULT_PARAMS\<lparr>t_final := Fin (- 24)\<rparr>"]
    runSimulation_validates_nothing[of "DEFAULT_PARAMS\<lparr>dt := Fin 0\<rparr>"]
    runSimulation_validates_nothing[of "DEFAULT_PARAMS\<lparr>dt := Fin (- 1 / 2)\<rparr>"]
    runSimulation_validates_nothing[of "DEFAULT_PARAMS\<lparr>dt := Fin 400\<rparr>"]
    runSimulation_validates_nothing[of "DEFAULT_PARAMS\<lparr>C_G_aq_0 := Fin (- 5)\<rparr>"]
  by (simp add: DEFAULT_PARAMS_def flt_def fle_def)

text \<open>
  Counterexample to claim C2 as stated: with \<open>t_final = -24\<close> the call returns the empty
  trajectory; with \<open>dt = 400 > t_final = 336\<close> it returns one snapshot; with
  \<open>C_G_aq_0 = -5\<close> (and \<open>t_final = 0.5\<close>) it returns two snapshots, which report the
  aqueous concentration 0.  No call raises.
\<close>

theorem invalid_parameters_not_rejected_counterexample:
  "runSimulation (DEFAULT_PARAMS\<lparr>t_final := Fin (- 24)\<rparr>) = Some [] \<and>
   map_option (map C_G_aq) (runSimulation (DEFAULT_PARAMS\<lparr>dt := Fin 400\<rparr>)) = Some [Fin 100] \<and>
   map_option (map C_G_aq)
     (runSimulation (DEFAULT_PARAMS\<lparr>C_G_aq_0 := Fin (- 5), t_final := Fin (1 / 2)\<rparr>)) =
     Some [Fin 0, Fin 0]"
  by (simp add: runSimulation_def sim_loop.simps DEFAULT_PARAMS_def eval_defs)

section \<open>Invariants of the loop\<close>

text \<open>
  A property of the variables that \<open>advance\<close> keeps, and that makes every snapshot
  satisfy \<open>Q\<close>, makes every snapshot of a returned trajectory satisfy \<open>Q\<close>.
\<close>

lemma sim_loop_invariant:
  assumes run: "sim_loop p t v acc = Some tr"
    and inv: "I v"
    and step: "\<And>v. I v \<Longrightarrow> I (advance p v)"
    and snap: "\<And>t v. I v \<Longrightarrow> Q (snapshot_at p t v)"
    and acc: "\<forall>s\<in>set acc. Q s"
  shows "\<forall>s\<in>set tr. Q s"
proof -
  have "p = p \<longrightarrow> I v \<longrightarrow> (\<forall>s\<in>set acc. Q s) \<longrightarrow> (\<forall>s\<in>set tr. Q s)"
  proof (rule sim_loop.raw_induct
      [where P = "\<lambda>q t v acc tr. q = p \<longrightarrow> I v \<longrightarrow> (\<forall>s\<in>set acc. Q s) \<longrightarrow> (\<forall>s\<in>set tr. Q s)",
        OF _ run])
    fix f q t v acc tr
    assume IH: "\<And>q t v acc tr. f q t v acc = Some tr \<Longrightarrow>
        q = p \<longrightarrow> I v \<longrightarrow> (\<forall>s\<in>set acc. Q s) \<longrightarrow> (\<forall>s\<in>set tr. Q s)"
      and body: "(if fle t (t_final q)
        then f q (fadd t (dt q)) (advance q v) (acc @ [snapshot_at q t v])
        else Some acc) = Some tr"
    show "q = p \<longrightarrow> I v \<longrightarrow> (\<forall>s\<in>set acc. Q s) \<longrightarrow> (\<forall>s\<in>set tr. Q s)"
    proof (intro impI)
      assume q: "q = p" and v: "I v" and a: "\<forall>s\<in>set acc. Q s"
      show "\<forall>s\<in>set tr. Q s"
      proof (cases "fle t (t_final q)")
        case True
        with body have "f q (fadd t (dt q)) (advance q v) (acc @ [snapshot_at q t v]) = Some tr"
          by simp
        from IH[OF this] q v a step snap show ?thesis by simp
      next
        case False
        with body a show ?thesis by simp
      qed
    qed
  qed
  with inv acc show ?thesis by simp
qed

lemma sim_loop_prefix:
  assumes run: "sim_loop p t v acc = Some tr"
  shows "\<exists>rest. tr = acc @ rest \<and> (rest \<noteq> [] \<longrightarrow> hd rest = snapshot_at p t v)"
proof (rule sim_loop.raw_induct
    [where P = "\<lambda>p t v acc tr.
        \<exists>rest. tr = acc @ rest \<and> (rest \<noteq> [] \<longrightarrow> hd rest = snapshot_at p t v)",
      OF _ run])
  fix f p t v acc tr
  assume IH: "\<And>p t v acc tr. f p t v acc = Some tr \<Longrightarrow>
      \<exists>rest. tr = acc @ rest \<and> (rest \<noteq> [] \<longrightarrow> hd rest = snapshot_at p t v)"
    and body: "(if fle t (t_final p)
      then f p (fadd t (dt p)) (advance p v) (acc @ [snapshot_at p t v])
      else Some acc) = Some tr"
  show "\<exists>rest. tr = acc @ rest \<and> (rest \<noteq> [] \<longrightarrow> hd rest = snapshot_at p t v)"
  proof (cases "fle t (t_final p)")
    case True
    with body have "f p (fadd t (dt p)) (advance p v) (acc @ [snapshot_at p t v]) = Some tr"
      by simp
    from IH[OF this] obtain rest where "tr = (acc @ [snapshot_at p t v]) @ rest" by blast
    then have "tr = acc @ (snapshot_at p t v # rest)" by simp
    then show ?thesis by (intro exI[of _ "snapshot_at p t v # rest"]) simp
  next
    case False
    with body show ?thesis by simp
  qed
qed

lemma runSimulation_hd:
  "runSimulation p = Some tr \<Longrightarrow> tr \<noteq> [] \<Longrightarrow> hd tr = snapshot_at p (Fin 0) (init_vars p)"
  using sim_loop_prefix[of p "Fin 0" "init_vars p" "[]" tr] by (auto simp: runSimulation_def)

lemma length_traj: "length (traj p n t v) = n"
  by (induction n arbitrary: t v) simp_all

section \<open>Claims about a zero initial mass\<close>

lemma zn_fmul1: "zero_or_NaN x \<Longrightarrow> zero_or_NaN (fmul x y)"
  by (cases x; cases y) (auto simp: zero_or_NaN_def fmul_def)

lemma zn_fmul2: "zero_or_NaN y \<Longrightarrow> zero_or_NaN (fmul x y)"
  by (cases x; cases y) (auto simp: zero_or_NaN_def fmul_def)

lemma zn_fdiv: "zero_or_NaN x \<Longrightarrow> zero_or_NaN (fdiv x y)"
  by (cases x; cases y) (auto simp: zero_or_NaN_def fdiv_def)

lemma zn_fneg: "zero_or_NaN x \<Longrightarrow> zero_or_NaN (fneg x)"
  by (cases x) (auto simp: zero_or_NaN_def)

lemma zn_fadd: "zero_or_NaN x \<Longrightarrow> zero_or_NaN y \<Longrightarrow> zero_or_NaN (fadd x y)"
  by (cases x; cases y) (auto simp: zero_or_NaN_def)

lemma zn_fsub: "zero_or_NaN x \<Longrightarrow> zero_or_NaN y \<Longrightarrow> zero_or_NaN (fsub x y)"
  by (simp add: fsub_def zn_fadd zn_fneg)

lemma zn_max: "zero_or_NaN x \<Longrightarrow> zero_or_NaN (Math_max (Fin 0) x)"
  by (cases x) (auto simp: zero_or_NaN_def Math_max_def flt_def)

lemma zn_fdiv_zn: "zero_or_NaN x \<Longrightarrow> zero_or_NaN y \<Longrightarrow> fdiv x y = NaN"
  by (cases x; cases y) (auto simp: zero_or_NaN_def fdiv_def)

lemma clamp_NaN: "Math_min (Fin 100) (Math_max (Fin 0) (fmul (Fin 100) (fsub (Fin 1) NaN))) = NaN"
  by (simp add: fsub_def fmul_def Math_max_def Math_min_def)

lemma clamp_zero_div:
  "is_zero z \<Longrightarrow>
   Math_min (Fin 100) (Math_max (Fin 0) (fmul (Fin 100) (fsub (Fin 1) (fdiv x z))))
     \<in> {NaN, Fin 0, Fin 100}"
  by (cases x; cases z)
    (auto simp: fdiv_def fsub_def fmul_def Math_max_def Math_min_def flt_def)

lemma zero_mass_advance: "zero_mass_vars v \<Longrightarrow> zero_mass_vars (advance p v)"
  by (simp add: zero_mass_vars_def advance_def dC_G_aq_def dC_G_s_def r_degradation_now_def
      r_sorption_now_def monod_def zn_max zn_fadd zn_fmul1 zn_fmul2 zn_fdiv zn_fsub zn_fneg)

lemma zero_mass_snapshot:
  assumes "zero_mass_vars v" "zero_or_NaN (C_total_0 p)"
  shows "removal_percent (snapshot_at p t v) = NaN"
proof -
  from assms have "zero_or_NaN (C_total_now p v)"
    by (simp add: zero_mass_vars_def C_total_now_def zn_fadd zn_fmul2)
  with assms have "fdiv (C_total_now p v) (C_total_0 p) = NaN"
    by (simp add: zn_fdiv_zn)
  then show ?thesis
    by (simp add: snapshot_at_def removal_percent_now_def clamp_NaN)
qed

text \<open>
  Claim C10, as the code has it.  When the initial total mass
  \<open>C_G_aq_0 + theta * C_G_s_0\<close> is zero, the division by it is not guarded: in every
  returned trajectory the first snapshot has the \<open>removal_percent\<close> \<open>NaN\<close>, which the
  clamp to [0, 100] does not replace; every snapshot has the \<open>removal_percent\<close> \<open>NaN\<close>,
  0 or 100; and when \<open>C_G_aq_0\<close> and \<open>C_G_s_0\<close> are both zero, every snapshot has the
  \<open>removal_percent\<close> \<open>NaN\<close>.
\<close>

theorem zero_initial_mass_removal_percent:
  assumes "is_zero (C_total_0 p)" "runSimulation p = Some tr"
  shows "(tr \<noteq> [] \<longrightarrow> removal_percent (hd tr) = NaN) \<and>
         (\<forall>s\<in>set tr. removal_percent s \<in> {NaN, Fin 0, Fin 100}) \<and>
         (is_zero (C_G_aq_0 p) \<and> is_zero (C_G_s_0 p) \<longrightarrow>
            (\<forall>s\<in>set tr. removal_percent s = NaN))"
proof (intro conjI impI)
  assume ne: "tr \<noteq> []"
  have "zero_or_NaN (C_total_now p (init_vars p))"
    using assms(1) by (simp add: C_total_now_def C_total_0_def init_vars_def zero_or_NaN_def)
  with assms(1) have "fdiv (C_total_now p (init_vars p)) (C_total_0 p) = NaN"
    by (simp add: zn_fdiv_zn zero_or_NaN_def)
  then have "removal_percent (snapshot_at p (Fin 0) (init_vars p)) = NaN"
    by (simp add: snapshot_at_def removal_percent_now_def clamp_NaN)
  with runSimulation_hd[OF assms(2) ne] show "removal_percent (hd tr) = NaN" by simp
next
  from assms(2) have run: "sim_loop p (Fin 0) (init_vars p) [] = Some tr"
    by (simp add: runSimulation_def)
  show "\<forall>s\<in>set tr. removal_percent s \<in> {NaN, Fin 0, Fin 100}"
  proof (rule sim_loop_invariant[OF run, where I = "\<lambda>v. True"])
    fix t v
    show "removal_percent (snapshot_at p t v) \<in> {NaN, Fin 0, Fin 100}"
      using clamp_zero_div[OF assms(1), of "C_total_now p v"]
      by (simp add: snapshot_at_def removal_percent_now_def)
  qed simp_all
next
  assume z: "is_zero (C_G_aq_0 p) \<and> is_zero (C_G_s_0 p)"
  from assms(2) have run: "sim_loop p (Fin 0) (init_vars p) [] = Some tr"
    by (simp add: runSimulation_def)
  show "\<forall>s\<in>set tr. removal_percent s = NaN"
  proof (rule sim_loop_invariant[OF run, where I = zero_mass_vars])
    show "zero_mass_vars (init_vars p)"
      using z by (simp add: zero_mass_vars_def init_vars_def zero_or_NaN_def)
  next
    fix v assume "zero_mass_vars v"
    then show "zero_mass_vars (advance p v)" by (rule zero_mass_advance)
  next
    fix t v assume "zero_mass_vars v"
    then show "removal_percent (snapshot_at p t v) = NaN"
      using assms(1) by (simp add: zero_mass_snapshot zero_or_NaN_def)
  qed simp
qed

lemma run_no_glyphosate:
  "map_option (map removal_percent) (runSimulation no_glyphosate) = Some [NaN, NaN, NaN]"
  by (simp add: no_glyphosate_def runSimulation_def sim_loop.simps DEFAULT_PARAMS_def eval_defs)

text \<open>
  Witness for claim C10 (as the code has it): the default parameters without glyphosate,
  run for one hour.
\<close>

theorem zero_initial_mass_removal_percent_witness:
  "is_zero (C_total_0 no_glyphosate) \<and>
   (\<exists>tr. runSimulation no_glyphosate = Some tr \<and> length tr = 3 \<and>
      removal_percent (hd tr) = NaN \<and> removal_percent (last tr) = NaN)"
proof -
  have z: "is_zero (C_total_0 no_glyphosate)"
    "is_zero (C_G_aq_0 no_glyphosate) \<and> is_zero (C_G_s_0 no_glyphosate)"
    by (simp_all add: no_glyphosate_def DEFAULT_PARAMS_def C_total_0_def fmul_def)
  from run_no_glyphosate obtain tr where tr: "runSimulation no_glyphosate = Some tr"
    and len: "length tr = 3"
    by (cases "runSimulation no_glyphosate") auto
  then have ne: "tr \<noteq> []" by auto
  from zero_initial_mass_removal_percent[OF z(1) tr] z(2) ne
  have "removal_percent (hd tr) = NaN" "removal_percent (last tr) = NaN"
    by simp_all
  with z tr len show ?thesis by blast
qed

text \<open>
  Counterexample to claim C10 as stated: with \<open>theta = 0\<close> and only sorbed glyphosate
  the initial total mass is zero; the first snapshot has the \<open>removal_percent\<close> \<open>NaN\<close>,
  but the sorbed glyphosate then desorbs, the total becomes positive, the quotient is
  \<open>Infinity\<close>, and the clamp makes the \<open>removal_percent\<close> of the second snapshot 0.
\<close>

theorem removal_percent_not_always_NaN_counterexample:
  "is_zero (C_total_0 sorbed_only_no_solids) \<and>
   map_option (map removal_percent) (runSimulation sorbed_only_no_solids) = Some [NaN, Fin 0]"
  by (simp add: sorbed_only_no_solids_def runSimulation_def sim_loop.simps DEFAULT_PARAMS_def
      eval_defs)

text \<open>
  Claim C5.  The snapshots should have concentrations that are at least 0 and a
  \<open>removal_percent\<close> in [0, 100].  The code clamps with \<open>Math.max\<close> and \<open>Math.min\<close>,
  which let \<open>NaN\<close> through.  The default parameters without glyphosate
  (\<open>C_G_aq_0 = 0\<close>, \<open>C_G_s_0 = 0\<close>) meet the input constraints; the concentrations
  are 0, but the \<open>removal_percent\<close> of every snapshot is \<open>NaN\<close>, for which both
  \<open>0 <= removal_percent\<close> and \<open>removal_percent <= 100\<close> are false.
\<close>

theorem removal_percent_out_of_bounds_without_glyphosate:
  "valid_params no_glyphosate \<and>
   map_option (map C_G_aq) (runSimulation no_glyphosate) = Some [Fin 0, Fin 0, Fin 0] \<and>
   map_option (map removal_percent) (runSimulation no_glyphosate) = Some [NaN, NaN, NaN] \<and>
   \<not> fle (Fin 0) NaN \<and> \<not> fle NaN (Fin 100)"
  by (simp add: no_glyphosate_def runSimulation_def sim_loop.simps DEFAULT_PARAMS_def eval_defs
      valid_params_def)

text \<open>
  Claim C4.  With \<open>X_0 = 0\<close> and otherwise valid inputs every snapshot should have the
  biomass \<open>X = 0\<close> and \<open>removal_percent = 0\<close>.  The default parameters with \<open>X_0 = 0\<close>
  and without glyphosate (\<open>C_G_aq_0 = 0\<close>, \<open>C_G_s_0 = 0\<close>) meet the input constraints;
  the biomass of every snapshot is 0, but its \<open>removal_percent\<close> is \<open>NaN\<close>, not 0: the
  division by the initial total mass is not guarded and the clamp lets \<open>NaN\<close> through.
  The two fields are computed from zeros and \<open>NaN\<close> only, so the source computes the
  same values for them.
\<close>

theorem removal_percent_NaN_without_biomass:
  "valid_params no_glyphosate_no_biomass \<and> is_zero (X_0 no_glyphosate_no_biomass) \<and>
   map_option (map X) (runSimulation no_glyphosate_no_biomass) = Some [Fin 0, Fin 0, Fin 0] \<and>
   map_option (map removal_percent) (runSimulation no_glyphosate_no_biomass) =
     Some [NaN, NaN, NaN]"
  by (simp add: no_glyphosate_no_biomass_def runSimulation_def sim_loop.simps
      DEFAULT_PARAMS_def eval_defs valid_params_def)

text \<open>
  Claim C6.  With \<open>k_max = 0\<close>, \<open>k_sorp = 0\<close> and otherwise valid inputs every snapshot
  should have the aqueous concentration \<open>C_G_aq\<close> of the first snapshot and
  \<open>removal_percent = 0\<close>.  The default parameters with \<open>k_max = 0\<close>, \<open>k_sorp = 0\<close> and
  without glyphosate (\<open>C_G_aq_0 = 0\<close>, \<open>C_G_s_0 = 0\<close>) meet the input constraints; the
  aqueous concentration of every snapshot is 0, but its \<open>removal_percent\<close> is \<open>NaN\<close>,
  not 0, by the same unguarded division.  The two fields are computed from zeros and
  \<open>NaN\<close> only, so the source computes the same values for them.
\<close>

theorem removal_percent_NaN_without_kinetics:
  "valid_params no_glyphosate_no_kinetics \<and>
   is_zero (k_max no_glyphosate_no_kinetics) \<and> is_zero (k_sorp no_glyphosate_no_kinetics) \<and>
   map_option (map C_G_aq) (runSimulation no_glyphosate_no_kinetics) =
     Some [Fin 0, Fin 0, Fin 0] \<and>
   map_option (map removal_percent) (runSimulation no_glyphosate_no_kinetics) =
     Some [NaN, NaN, NaN]"
  by (simp add: no_glyphosate_no_kinetics_def runSimulation_def sim_loop.simps
      DEFAULT_PARAMS_def eval_defs valid_params_def)

section \<open>The run on the default parameters\<close>

lemma advance_default:
  assumes "0 \<le> aq"
  shows "advance DEFAULT_PARAMS (mk_vars aq s a x) =
    mk_vars
      (max 0 (aq + (- (8 / 100 * (aq / (20 + aq + 1 / 10 ^ 10)) * x) - 1 / 10 * (aq - s / 50)) * (1 / 2)))
      (max 0 (s + 1 / 10 * (aq - s / 50) / (1 / 10) * (1 / 2)))
      (max 0 (a + (6 / 10 * (8 / 100 * (aq / (20 + aq + 1 / 10 ^ 10)) * x) - 2 / 100 * a) * (1 / 2)))
      (max 0 (x + (5 / 100 * (aq / (20 + aq + 1 / 10 ^ 10)) * x - 5 / 1000 * x) * (1 / 2)))"
proof -
  have nz: "20 + aq + 1 / 10 ^ 10 \<noteq> 0" using assms by auto
  show ?thesis
    using nz
    by (simp add: advance_def mk_vars_def DEFAULT_PARAMS_def dC_G_aq_def dC_G_s_def dC_A_aq_def
        dX_def r_degradation_now_def r_sorption_now_def r_growth_def r_death_def
        r_AMPA_formation_def r_AMPA_degradation_def monod_def)
qed

lemma golden_step:
  fixes aq s a x :: real
  assumes "0 \<le> aq" "0 \<le> s" "0 \<le> a" "0 \<le> x"
    and bound: "x + 5 / 8 * (aq + s / 10) \<le> 145 / 2" and tot: "aq + s / 10 \<le> 100"
    and strict: "aq + s / 10 < 100 \<or> 0 < aq \<and> 0 < x"
  shows "golden_inv (advance DEFAULT_PARAMS (mk_vars aq s a x))"
proof -
  define m where "m = aq / (20 + aq + 1 / 10 ^ 10)"
  define mx where "mx = m * x"
  have den: "20 \<le> 20 + aq + 1 / 10 ^ 10" using assms by simp
  have m0: "0 \<le> m" using assms by (simp add: m_def)
  have m20: "m \<le> aq / 20"
    unfolding m_def using assms den by (intro divide_left_mono) auto
  have x_le: "x \<le> 145 / 2" using assms by argo
  have mx0: "0 \<le> mx" using m0 assms by (simp add: mx_def)
  have "m * x \<le> aq / 20 * (145 / 2)"
    using m20 x_le m0 assms by (intro mult_mono) auto
  then have mx_le: "mx \<le> aq / 20 * (145 / 2)" by (simp add: mx_def)
  have "0 < aq \<and> 0 < x \<Longrightarrow> 0 < mx"
    by (simp add: mx_def m_def add_pos_pos)
  with strict have less: "aq + s / 10 - 4 / 100 * mx < 100"
    using tot mx0 by argo
  let ?aq = "aq + (- (8 / 100 * mx) - 1 / 10 * (aq - s / 50)) * (1 / 2)"
  let ?s = "s + 1 / 10 * (aq - s / 50) / (1 / 10) * (1 / 2)"
  let ?a = "max 0 (a + (6 / 10 * (8 / 100 * mx) - 2 / 100 * a) * (1 / 2))"
  let ?x = "x + (5 / 100 * mx - 5 / 1000 * x) * (1 / 2)"
  have aq': "0 \<le> ?aq" using mx_le assms by argo
  have s': "0 \<le> ?s" using assms by argo
  have x': "0 \<le> ?x" using mx0 assms by argo
  have adv: "advance DEFAULT_PARAMS (mk_vars aq s a x) = mk_vars ?aq ?s ?a ?x"
    using aq' s' x' assms(1)
    by (simp add: advance_default m_def mx_def max_def mult.assoc)
  have "?x + 5 / 8 * (?aq + ?s / 10) \<le> 145 / 2" using bound assms by argo
  moreover have "?aq + ?s / 10 < 100" using less by argo
  moreover have "0 \<le> ?a" by simp
  ultimately show ?thesis
    unfolding golden_inv_def adv using aq' s' x' by blast
qed

lemma golden_advance: "golden_inv v \<Longrightarrow> golden_inv (advance DEFAULT_PARAMS v)"
  unfolding golden_inv_def[of v] by (auto intro: golden_step)

lemma golden_first: "golden_inv (advance DEFAULT_PARAMS (init_vars DEFAULT_PARAMS))"
proof -
  have i: "init_vars DEFAULT_PARAMS = mk_vars 100 0 0 10"
    by (simp add: init_vars_def DEFAULT_PARAMS_def mk_vars_def)
  show ?thesis unfolding i by (rule golden_step) simp_all
qed

lemma golden_funpow:
  "0 < n \<Longrightarrow> golden_inv ((advance DEFAULT_PARAMS ^^ n) (init_vars DEFAULT_PARAMS))"
proof (induction n)
  case 0
  then show ?case by simp
next
  case (Suc n)
  then show ?case
    by (cases "n = 0") (simp_all add: golden_first golden_advance)
qed

lemma golden_removal:
  assumes "golden_inv v"
  shows "flt (Fin 0) (removal_percent (snapshot_at DEFAULT_PARAMS t v))"
proof -
  from assms obtain aq s a x where v: "v = mk_vars aq s a x"
    and tot: "aq + s / 10 < 100"
    by (auto simp: golden_inv_def)
  have c0: "C_total_0 DEFAULT_PARAMS = Fin 100"
    by (simp add: C_total_0_def DEFAULT_PARAMS_def fmul_def)
  have th: "theta DEFAULT_PARAMS = Fin (1 / 10)"
    by (simp add: DEFAULT_PARAMS_def)
  have fin: "isFin (removal_percent_now DEFAULT_PARAMS v)"
    and val: "val (removal_percent_now DEFAULT_PARAMS v) = 100 * (1 - (aq + 1 / 10 * s) / 100)"
    by (simp_all add: removal_percent_now_def C_total_now_def c0 th v mk_vars_def)
  have "0 < 100 * (1 - (aq + 1 / 10 * s) / 100)" using tot by argo
  with fin val show ?thesis
    by (simp add: snapshot_at_def)
qed


lemma hd_traj: "0 < n \<Longrightarrow> hd (traj p n t v) = snapshot_at p t v"
  by (cases n) simp_all

lemma last_traj:
  "0 < n \<Longrightarrow> \<exists>t'. last (traj p n t v) = snapshot_at p t' ((advance p ^^ (n - 1)) v)"
proof (induction n arbitrary: t v)
  case 0
  then show ?case by simp
next
  case (Suc n)
  show ?case
  proof (cases "n = 0")
    case True
    then show ?thesis by auto
  next
    case False
    then have pos: "0 < n" by simp
    from Suc.IH[OF pos, of "fadd t (dt p)" "advance p v"] obtain t' where
      "last (traj p n (fadd t (dt p)) (advance p v)) =
         snapshot_at p t' ((advance p ^^ (n - 1)) (advance p v))" by blast
    moreover have "traj p n (fadd t (dt p)) (advance p v) \<noteq> []"
      using pos by (cases n) simp_all
    moreover have "(advance p ^^ (n - 1)) (advance p v) = (advance p ^^ n) v"
      using pos by (cases n) (simp_all add: funpow_swap1)
    ultimately show ?thesis by auto
  qed
qed

text \<open>
  Claim C3.  On \<open>DEFAULT_PARAMS\<close> (the parameter set of the claim) \<open>runSimulation\<close>
  returns a trajectory of exactly 673 snapshots; the first snapshot has \<open>time_h = 0\<close> and
  \<open>removal_percent = 0\<close>; and the \<open>removal_percent\<close> of the last snapshot is strictly
  greater than that of the first.
\<close>

theorem golden_case:
  "\<exists>tr. runSimulation DEFAULT_PARAMS = Some tr \<and> length tr = 673 \<and>
      time_h (hd tr) = Fin 0 \<and> removal_percent (hd tr) = Fin 0 \<and>
      flt (removal_percent (hd tr)) (removal_percent (last tr))"
proof -
  let ?p = DEFAULT_PARAMS
  let ?tr = "traj ?p 673 (Fin 0) (init_vars ?p)"
  have d: "dt ?p = Fin (1 / 2)" and T: "isFin (t_final ?p)" "val (t_final ?p) = 336"
    by (simp_all add: DEFAULT_PARAMS_def)
  have n: "iterations 336 (1 / 2) 0 = 673"
    by (simp add: iterations_def)
  have run: "runSimulation ?p = Some ?tr"
    using runSimulation_traj[OF d _ T(1)] by (simp add: T(2) n)
  have first: "hd ?tr = snapshot_at ?p (Fin 0) (init_vars ?p)"
    by (rule hd_traj) simp
  have h1: "time_h (hd ?tr) = Fin 0"
    unfolding first by (simp add: snapshot_at_def)
  have h2: "removal_percent (hd ?tr) = Fin 0"
    unfolding first by (simp add: DEFAULT_PARAMS_def eval_defs)
  obtain t' where "last ?tr = snapshot_at ?p t' ((advance ?p ^^ (673 - 1)) (init_vars ?p))"
    using last_traj[of 673 ?p "Fin 0" "init_vars ?p"] by auto
  moreover have "golden_inv ((advance ?p ^^ (673 - 1)) (init_vars ?p))"
    by (rule golden_funpow) simp
  ultimately have "flt (Fin 0) (removal_percent (last ?tr))"
    by (simp add: golden_removal)
  with run h1 h2 show ?thesis by (simp add: length_traj)
qed

end
